theory Spec2Isabelle
  imports Complex_Main "HOL-Library.Sublist"
begin

section \<open>Data model\<close>

text \<open>
  The request and response models of \<^verbatim>\<open>app/models/form_models.py\<close> and the settings
  of \<^verbatim>\<open>app/core/config.py\<close>. \<^verbatim>\<open>Optional[str]\<close> is \<open>string option\<close>. The field
  \<^verbatim>\<open>fields\<close> is \<open>form_fields\<close> (a record cannot name a field \<open>fields\<close>), and the
  \<^verbatim>\<open>status\<close> of \<^verbatim>\<open>ErrorResponse\<close> is \<open>error_status\<close>.
\<close>

record FillFormRequest =
  form_fields :: "string list"
  source_content :: string
  prompt_template_id :: "string option"

text \<open>
  Constructing a request: an omitted \<^verbatim>\<open>prompt_template_id\<close> takes the default
  \<^verbatim>\<open>"default_v1"\<close>; a given one (also an explicit null) is kept.
\<close>

definition FillFormRequest_init ::
  "string list \<Rightarrow> string \<Rightarrow> string option option \<Rightarrow> FillFormRequest" where
  "FillFormRequest_init fs sc tid =
     \<lparr>form_fields = fs, source_content = sc,
      prompt_template_id = (case tid of None \<Rightarrow> Some ''default_v1'' | Some t \<Rightarrow> t)\<rparr>"

record FillFormSuccessResponse =
  status :: string
  filled_data :: "(string \<times> string) list"

record ErrorResponse =
  error_status :: string
  message :: string

record Settings =
  llm_api_key :: string
  llm_api_endpoint :: string
  app_name :: string
  cors_origins :: "string list"

section \<open>Prompt construction\<close>

text \<open>Python's \<^verbatim>\<open>sep.join(xs)\<close>.\<close>

fun join :: "string \<Rightarrow> string list \<Rightarrow> string" where
  "join sep [] = []"
| "join sep [x] = x"
| "join sep (x # y # ys) = x @ sep @ join sep (y # ys)"

definition fields_str :: "FillFormRequest \<Rightarrow> string" where
  "fields_str request_data =
     join ''\<newline>'' (map (\<lambda>field. ''- '' @ field) (form_fields request_data))"

text \<open>The fixed template of \<^verbatim>\<open>fill_form_endpoint\<close>, line by line.\<close>

definition prompt_head :: string where
  "prompt_head =
     ''You are an AI assistant tasked with filling out a form.\<newline>'' @
     ''Below are the fields of the form:\<newline>'' @
     ''--- FIELDS START ---\<newline>''"

definition prompt_mid :: string where
  "prompt_mid =
     ''\<newline>--- FIELDS END ---\<newline>'' @
     ''\<newline>'' @
     ''Here is the source content from which to extract the information:\<newline>'' @
     ''--- CONTENT START ---\<newline>''"

definition prompt_tail :: string where
  \<open>prompt_tail =
     ''\<newline>--- CONTENT END ---\<newline>'' @
     ''\<newline>'' @
     ''Please extract the relevant information from the CONTENT and fill in each FIELD.\<newline>'' @
     ''Return the output as a JSON object where each key is a field name from the FIELDS list and its value is the corresponding extracted content.\<newline>'' @
     ''If information for a field is not found, use an empty string or "Not Found" as its value.\<newline>'' @
     ''Ensure the output is only the JSON object itself, without any additional explanations or markings.\<newline>''\<close>

definition prompt :: "FillFormRequest \<Rightarrow> string" where
  "prompt request_data =
     prompt_head @ fields_str request_data @ prompt_mid @
     source_content request_data @ prompt_tail"

section \<open>Python values and exceptions\<close>

text \<open>
  The values the JSON decoder produces, which the code handles untyped: \<^verbatim>\<open>None\<close>,
  \<^verbatim>\<open>bool\<close>, \<^verbatim>\<open>int\<close>, \<^verbatim>\<open>float\<close> (by its decimal value), \<^verbatim>\<open>str\<close>, \<^verbatim>\<open>list\<close> and
  \<^verbatim>\<open>dict\<close> (keys in insertion order).
\<close>

datatype json =
    JNull
  | JBool bool
  | JInt int
  | JFloat rat
  | JString string
  | JArray "json list"
  | JObject "(string \<times> json) list"

text \<open>
  An exception is its class and the text \<^verbatim>\<open>str(e)\<close> gives. The classes are subclasses of
  \<^verbatim>\<open>Exception\<close>; \<open>OtherException\<close> stands for any class the code names nowhere.
\<close>

datatype exn_class =
    HTTPStatusError
  | RequestError
  | JSONDecodeError
  | ValueError
  | KeyError
  | IndexError
  | TypeError
  | AttributeError
  | ValidationError
  | OtherException

datatype exn = Exn (exn_cls: exn_class) (exn_str: string)

text \<open>
  \<^verbatim>\<open>except ValueError\<close> also catches the subclasses \<^verbatim>\<open>json.JSONDecodeError\<close> and
  pydantic's \<^verbatim>\<open>ValidationError\<close>.
\<close>

definition is_ValueError :: "exn \<Rightarrow> bool" where
  "is_ValueError e \<longleftrightarrow> exn_cls e \<in> {ValueError, JSONDecodeError, ValidationError}"

text \<open>Sequencing of steps that may raise: the first exception ends the block.\<close>

definition and_then :: "exn + 'a \<Rightarrow> ('a \<Rightarrow> exn + 'b) \<Rightarrow> exn + 'b" where
  "and_then r f = (case r of Inl e \<Rightarrow> Inl e | Inr v \<Rightarrow> f v)"

definition sq :: "string \<Rightarrow> string" where
  "sq s = [CHR 0x27] @ s @ [CHR 0x27]"

fun type_name :: "json \<Rightarrow> string" where
  "type_name JNull = ''NoneType''"
| "type_name (JBool b) = ''bool''"
| "type_name (JInt i) = ''int''"
| "type_name (JFloat r) = ''float''"
| "type_name (JString s) = ''str''"
| "type_name (JArray xs) = ''list''"
| "type_name (JObject kvs) = ''dict''"

text \<open>Truth value of an object, as \<^verbatim>\<open>and\<close> and \<^verbatim>\<open>if\<close> test it.\<close>

fun py_bool :: "json \<Rightarrow> bool" where
  "py_bool JNull = False"
| "py_bool (JBool b) = b"
| "py_bool (JInt i) = (i \<noteq> 0)"
| "py_bool (JFloat r) = (r \<noteq> 0)"
| "py_bool (JString s) = (s \<noteq> [])"
| "py_bool (JArray xs) = (xs \<noteq> [])"
| "py_bool (JObject kvs) = (kvs \<noteq> [])"

text \<open>
  \<^verbatim>\<open>k in obj\<close> for a string \<open>k\<close>: key test on a dict, membership in a list,
  substring test on a string, \<^verbatim>\<open>TypeError\<close> on anything else.
\<close>

fun py_in :: "string \<Rightarrow> json \<Rightarrow> exn + bool" where
  "py_in k (JObject kvs) = Inr (k \<in> set (map fst kvs))"
| "py_in k (JArray xs) = Inr (JString k \<in> set xs)"
| "py_in k (JString s) = Inr (sublist k s)"
| "py_in k v =
     Inl (Exn TypeError (''argument of type '' @ sq (type_name v) @ '' is not iterable''))"

text \<open>
  \<^verbatim>\<open>obj[k]\<close> for a string \<open>k\<close>. The text of the \<^verbatim>\<open>KeyError\<close> is the key's
  \<^verbatim>\<open>repr\<close>, for keys without quotes or escapes as the two the code uses.
\<close>

fun py_getitem :: "json \<Rightarrow> string \<Rightarrow> exn + json" where
  "py_getitem (JObject kvs) k =
     (case map_of kvs k of None \<Rightarrow> Inl (Exn KeyError (sq k)) | Some v \<Rightarrow> Inr v)"
| "py_getitem (JArray xs) k =
     Inl (Exn TypeError ''list indices must be integers or slices, not str'')"
| "py_getitem (JString s) k =
     Inl (Exn TypeError (''string indices must be integers, not '' @ sq ''str''))"
| "py_getitem v k =
     Inl (Exn TypeError (sq (type_name v) @ '' object is not subscriptable''))"

text \<open>\<^verbatim>\<open>obj[0]\<close>. A dict decoded from JSON has string keys only, so \<open>0\<close> is no key.\<close>

fun py_getitem0 :: "json \<Rightarrow> exn + json" where
  "py_getitem0 (JArray xs) =
     (case xs of [] \<Rightarrow> Inl (Exn IndexError ''list index out of range'') | x # _ \<Rightarrow> Inr x)"
| "py_getitem0 (JString s) =
     (case s of [] \<Rightarrow> Inl (Exn IndexError ''string index out of range'')
      | c # _ \<Rightarrow> Inr (JString [c]))"
| "py_getitem0 (JObject kvs) = Inl (Exn KeyError ''0'')"
| "py_getitem0 v =
     Inl (Exn TypeError (sq (type_name v) @ '' object is not subscriptable''))"

text \<open>\<^verbatim>\<open>obj.get(k, default)\<close>: only a dict has the method.\<close>

fun py_get :: "json \<Rightarrow> string \<Rightarrow> json \<Rightarrow> exn + json" where
  "py_get (JObject kvs) k d = Inr (case map_of kvs k of None \<Rightarrow> d | Some v \<Rightarrow> v)"
| "py_get v k d =
     Inl (Exn AttributeError
       (sq (type_name v) @ '' object has no attribute '' @ sq ''get''))"

fun is_dict :: "json \<Rightarrow> bool" where
  "is_dict (JObject kvs) = True"
| "is_dict v = False"

fun is_str :: "json \<Rightarrow> bool" where
  "is_str (JString s) = True"
| "is_str v = False"

fun str_of :: "json \<Rightarrow> string" where
  "str_of (JString s) = s"
| "str_of v = []"

section \<open>The libraries the code calls\<close>

text \<open>
  What the code takes from its libraries and does not define itself: the JSON decoder
  (\<^verbatim>\<open>json.loads\<close>, also behind \<^verbatim>\<open>response.json()\<close>; \<open>Inl\<close> holds the text of its
  \<^verbatim>\<open>JSONDecodeError\<close>), the text of the \<^verbatim>\<open>HTTPStatusError\<close> that
  \<^verbatim>\<open>raise_for_status\<close> builds from a status code, and the text of the
  \<^verbatim>\<open>ValidationError\<close> of a rejected \<^verbatim>\<open>filled_data\<close>.
\<close>

record py_lib =
  json_loads :: "string \<Rightarrow> string + json"
  status_error_str :: "nat \<Rightarrow> string"
  validation_error_str :: "(string \<times> json) list \<Rightarrow> string"

text \<open>
  The HTTP client. A POST is a step on the state \<open>'w\<close> of the world outside the process:
  it raises (no connection, timeout) or yields a response.
\<close>

datatype http_method = POST

record http_request =
  req_method :: http_method
  req_url :: string
  req_headers :: "(string \<times> string) list"
  req_json :: json
  req_timeout :: nat

record http_response =
  status_code :: nat
  response_text :: string

datatype post_result = Raises exn | Responds http_response

type_synonym 'w client = "http_request \<Rightarrow> 'w \<Rightarrow> post_result \<times> 'w"

text \<open>
  \<^verbatim>\<open>response.raise_for_status()\<close> raises unless the status is 2xx, and
  \<^verbatim>\<open>response.json()\<close> decodes the body.
\<close>

definition raise_for_status :: "py_lib \<Rightarrow> http_response \<Rightarrow> exn + unit" where
  "raise_for_status lib response =
     (if 200 \<le> status_code response \<and> status_code response < 300 then Inr ()
      else Inl (Exn HTTPStatusError (status_error_str lib (status_code response))))"

definition response_json :: "py_lib \<Rightarrow> http_response \<Rightarrow> exn + json" where
  "response_json lib response =
     (case json_loads lib (response_text response) of
        Inl msg \<Rightarrow> Inl (Exn JSONDecodeError msg)
      | Inr v \<Rightarrow> Inr v)"

text \<open>\<^verbatim>\<open>json.loads(x)\<close> on an object of any type: only a string is decoded.\<close>

definition py_json_loads :: "py_lib \<Rightarrow> json \<Rightarrow> exn + json" where
  "py_json_loads lib x =
     (case x of
        JString s \<Rightarrow>
          (case json_loads lib s of
             Inl msg \<Rightarrow> Inl (Exn JSONDecodeError msg)
           | Inr v \<Rightarrow> Inr v)
      | _ \<Rightarrow>
          Inl (Exn TypeError
            (''the JSON object must be str, bytes or bytearray, not '' @ type_name x)))"

section \<open>The completion client\<close>

record LLMService =
  api_key :: string
  api_endpoint :: string
  timeout :: nat

definition LLMService_init :: "string \<Rightarrow> string \<Rightarrow> LLMService" where
  "LLMService_init key endpoint = \<lparr>api_key = key, api_endpoint = endpoint, timeout = 30\<rparr>"

definition headers :: "LLMService \<Rightarrow> (string \<times> string) list" where
  "headers self =
     [(''Authorization'', ''Bearer '' @ api_key self),
      (''Content-Type'', ''application/json'')]"

definition payload :: "string \<Rightarrow> json" where
  "payload p =
     JObject
       [(''model'', JString ''deepseek-coder''),
        (''prompt'', JString p),
        (''max_tokens'', JInt 1500),
        (''temperature'', JFloat (1 / 10))]"

definition post_request :: "LLMService \<Rightarrow> string \<Rightarrow> http_request" where
  "post_request self p =
     \<lparr>req_method = POST, req_url = api_endpoint self, req_headers = headers self,
      req_json = payload p, req_timeout = timeout self\<rparr>"

definition no_content :: "exn + json" where
  "no_content = Inl (Exn ValueError ''Could not extract valid content from LLM response.'')"

text \<open>
  Lines 33 to 45 of \<^verbatim>\<open>get_completion\<close>: the path
  \<^verbatim>\<open>choices[0].message.content\<close>, step by step on untyped data.
\<close>

definition extract_content :: "json \<Rightarrow> exn + json" where
  "extract_content response_data =
     and_then
       (and_then (py_in ''choices'' response_data) (\<lambda>has_choices.
          if has_choices
          then and_then (py_getitem response_data ''choices'') (\<lambda>c. Inr (py_bool c))
          else Inr False))
       (\<lambda>cond.
          if cond then
            and_then (py_getitem response_data ''choices'') (\<lambda>choices.
            and_then (py_getitem0 choices) (\<lambda>choice.
            and_then (py_get choice ''message'' (JObject [])) (\<lambda>msg.
            and_then (py_in ''content'' msg) (\<lambda>has_content.
              if has_content then py_getitem msg ''content'' else no_content))))
          else no_content)"

text \<open>
  The three \<^verbatim>\<open>except\<close> clauses of \<^verbatim>\<open>get_completion\<close>, in their order: the first two
  re-raise, the third wraps, and any other exception passes through.
\<close>

definition on_exception :: "exn \<Rightarrow> exn" where
  "on_exception e =
     (if exn_cls e = HTTPStatusError then e
      else if exn_cls e = RequestError then e
      else if exn_cls e = JSONDecodeError \<or> exn_cls e = KeyError \<or> is_ValueError e
      then Exn ValueError (''Error parsing LLM API response: '' @ exn_str e)
      else e)"

definition get_completion ::
  "py_lib \<Rightarrow> LLMService \<Rightarrow> string \<Rightarrow> 'w client \<Rightarrow> 'w \<Rightarrow> (exn + json) \<times> 'w" where
  "get_completion lib self p client w =
     (case client (post_request self p) w of
        (posted, w') \<Rightarrow>
          (case
             (case posted of
                Raises e \<Rightarrow> Inl e
              | Responds response \<Rightarrow>
                  and_then (raise_for_status lib response) (\<lambda>_.
                  and_then (response_json lib response) extract_content))
           of
             Inl e \<Rightarrow> Inl (on_exception e)
           | Inr content \<Rightarrow> Inr content,
           w'))"

section \<open>The endpoint\<close>

text \<open>
  Constructing the response model: \<^verbatim>\<open>filled_data: Dict[str, str]\<close> is validated when
  the model is built. The models are pydantic 2 models (\<^verbatim>\<open>app/core/config.py\<close> imports
  \<^verbatim>\<open>pydantic_settings\<close>), where a \<^verbatim>\<open>str\<close> field takes a string only: a number, a
  boolean, \<^verbatim>\<open>None\<close>, a list or a dict is refused with a \<^verbatim>\<open>ValidationError\<close>, not
  converted. The keys of a decoded JSON object are strings already.
\<close>

definition FillFormSuccessResponse_init ::
  "py_lib \<Rightarrow> (string \<times> json) list \<Rightarrow> exn + FillFormSuccessResponse" where
  "FillFormSuccessResponse_init lib kvs =
     (if list_all (\<lambda>(k, v). is_str v) kvs
      then Inr \<lparr>status = ''success'', filled_data = map (\<lambda>(k, v). (k, str_of v)) kvs\<rparr>
      else Inl (Exn ValidationError (validation_error_str lib kvs)))"

text \<open>
  What leaves the endpoint other than a response model: an \<^verbatim>\<open>HTTPException\<close> with its
  status code and detail, or an exception no clause catches.
\<close>

datatype raised = HTTPException nat string | Uncaught exn

fun items :: "json \<Rightarrow> (string \<times> json) list" where
  "items (JObject kvs) = kvs"
| "items v = []"

text \<open>The second \<^verbatim>\<open>try\<close> block (lines 57 to 65) and the \<^verbatim>\<open>return\<close>.\<close>

definition parse_stage :: "py_lib \<Rightarrow> json \<Rightarrow> raised + FillFormSuccessResponse" where
  "parse_stage lib llm_response_text =
     (case
        and_then (py_json_loads lib llm_response_text) (\<lambda>filled.
          if \<not> is_dict filled
          then Inl (Exn ValueError ''LLM response was not a valid JSON object.'')
          else Inr filled)
      of
        Inl e \<Rightarrow>
          if is_ValueError e
          then Inl (HTTPException 500 (''Failed to parse LLM response: '' @ exn_str e))
          else Inl (Uncaught e)
      | Inr filled \<Rightarrow>
          (case FillFormSuccessResponse_init lib (items filled) of
             Inl e \<Rightarrow> Inl (Uncaught e)
           | Inr r \<Rightarrow> Inr r))"

definition fill_form_endpoint ::
  "py_lib \<Rightarrow> 'w client \<Rightarrow> FillFormRequest \<Rightarrow> Settings \<Rightarrow> 'w
     \<Rightarrow> (raised + FillFormSuccessResponse) \<times> 'w" where
  "fill_form_endpoint lib client request_data settings w =
     (let llm_service = LLMService_init (llm_api_key settings) (llm_api_endpoint settings)
      in case get_completion lib llm_service (prompt request_data) client w of
           (Inl e, w') \<Rightarrow>
             (Inl (HTTPException 503 (''LLM service request failed: '' @ exn_str e)), w')
         | (Inr llm_response_text, w') \<Rightarrow> (parse_stage lib llm_response_text, w'))"

text \<open>
  The reply the application sends: 200 with the response model; for an
  \<^verbatim>\<open>HTTPException\<close> its status code with its detail as the body (the framework's own
  handler, \<^verbatim>\<open>app/main.py\<close> registers none for it); and for any other exception the
  reply of \<^verbatim>\<open>global_exception_handler\<close> in \<^verbatim>\<open>app/main.py\<close>.
\<close>

datatype reply_body =
    SuccessBody FillFormSuccessResponse
  | DetailBody string
  | ErrorBody ErrorResponse

record http_reply =
  reply_status :: nat
  reply_body :: reply_body

definition global_exception_handler :: "exn \<Rightarrow> http_reply" where
  "global_exception_handler exc =
     \<lparr>reply_status = 500,
      reply_body = ErrorBody
        \<lparr>error_status = ''error'',
         message = ''An unexpected internal server error occurred.''\<rparr>\<rparr>"

fun app_reply :: "raised + FillFormSuccessResponse \<Rightarrow> http_reply" where
  "app_reply (Inr r) = \<lparr>reply_status = 200, reply_body = SuccessBody r\<rparr>"
| "app_reply (Inl (HTTPException code detail)) =
     \<lparr>reply_status = code, reply_body = DetailBody detail\<rparr>"
| "app_reply (Inl (Uncaught e)) = global_exception_handler e"

text \<open>
  The route declares, in the \<^verbatim>\<open>responses\<close> argument of its decorator, the model
  \<^verbatim>\<open>ErrorResponse\<close> for the status codes 400, 500 and 503; a body has that model when it
  is the envelope of a status and a message.
\<close>

definition declares_ErrorResponse :: "nat \<Rightarrow> bool" where
  "declares_ErrorResponse code \<longleftrightarrow> code \<in> {400, 500, 503}"

fun is_ErrorResponse :: "reply_body \<Rightarrow> bool" where
  "is_ErrorResponse (ErrorBody er) = True"
| "is_ErrorResponse b = False"

section \<open>A JSON decoder\<close>

text \<open>
  A decoder to put in place of \<open>json_loads\<close> when the model is run on concrete texts:
  JSON as \<^verbatim>\<open>json.loads\<close> reads it (objects, arrays, strings with the
  one-character escapes, numbers, the three literals, white space), a repeated key keeping
  its first place and its last value. It does not read \<^verbatim>\<open>\u\<close> escapes or the
  literals \<^verbatim>\<open>NaN\<close> and \<^verbatim>\<open>Infinity\<close>, and its error texts carry no position.
  The theorems below hold for every decoder.
\<close>

definition is_ws :: "char \<Rightarrow> bool" where
  "is_ws c \<longleftrightarrow> c = CHR '' '' \<or> c = CHR 0x09 \<or> c = CHR 0x0A \<or> c = CHR 0x0D"

definition skip_ws :: "string \<Rightarrow> string" where
  "skip_ws s = dropWhile is_ws s"

definition is_digit :: "char \<Rightarrow> bool" where
  "is_digit c \<longleftrightarrow> c \<in> set ''0123456789''"

definition digit_val :: "char \<Rightarrow> nat" where
  "digit_val c = of_char c - 48"

definition digits_val :: "string \<Rightarrow> nat" where
  "digits_val ds = foldl (\<lambda>n c. 10 * n + digit_val c) 0 ds"

definition unescape :: "char \<Rightarrow> char option" where
  \<open>unescape c =
     (if c = CHR ''"'' then Some (CHR ''"'')
      else if c = CHR 0x5C then Some (CHR 0x5C)
      else if c = CHR ''/'' then Some (CHR ''/'')
      else if c = CHR ''b'' then Some (CHR 0x08)
      else if c = CHR ''f'' then Some (CHR 0x0C)
      else if c = CHR ''n'' then Some (CHR 0x0A)
      else if c = CHR ''r'' then Some (CHR 0x0D)
      else if c = CHR ''t'' then Some (CHR 0x09)
      else None)\<close>

text \<open>The rest of a string after its opening quote; control characters are refused.\<close>

fun scan_string :: "string \<Rightarrow> string \<Rightarrow> (string \<times> string) option" where
  \<open>scan_string acc [] = None\<close>
| \<open>scan_string acc (c # cs) =
     (if c = CHR ''"'' then Some (rev acc, cs)
      else if c = CHR 0x5C then
        (case cs of
           [] \<Rightarrow> None
         | e # cs' \<Rightarrow>
             (case unescape e of
                None \<Rightarrow> None
              | Some d \<Rightarrow> scan_string (d # acc) cs'))
      else if (of_char c :: nat) < 32 then None
      else scan_string (c # acc) cs)\<close>

text \<open>
  A number: \<^verbatim>\<open>-?(0|[1-9][0-9]*)(\.[0-9]+)?([eE][-+]?[0-9]+)?\<close>, an \<^verbatim>\<open>int\<close> without
  fraction and exponent and a \<^verbatim>\<open>float\<close> with one.
\<close>

definition scan_int_part :: "string \<Rightarrow> (string \<times> string) option" where
  "scan_int_part s =
     (case s of
        [] \<Rightarrow> None
      | c # cs \<Rightarrow>
          if c = CHR ''0'' then Some ([c], cs)
          else if is_digit c then Some (takeWhile is_digit s, dropWhile is_digit s)
          else None)"

definition scan_frac :: "string \<Rightarrow> (string \<times> string) option" where
  "scan_frac s =
     (case s of
        [] \<Rightarrow> None
      | c # cs \<Rightarrow>
          if c = CHR ''.'' \<and> takeWhile is_digit cs \<noteq> []
          then Some (takeWhile is_digit cs, dropWhile is_digit cs)
          else None)"

definition scan_exp :: "string \<Rightarrow> (int \<times> string) option" where
  "scan_exp s =
     (case s of
        [] \<Rightarrow> None
      | c # cs \<Rightarrow>
          if c = CHR ''e'' \<or> c = CHR ''E'' then
            (let (neg, ds) =
               (case cs of
                  [] \<Rightarrow> (False, cs)
                | d # cs' \<Rightarrow>
                    if d = CHR ''-'' then (True, cs')
                    else if d = CHR ''+'' then (False, cs')
                    else (False, cs))
             in if takeWhile is_digit ds = [] then None
                else Some
                  ((if neg then - int (digits_val (takeWhile is_digit ds))
                    else int (digits_val (takeWhile is_digit ds))),
                   dropWhile is_digit ds))
          else None)"

definition pow10 :: "int \<Rightarrow> rat" where
  "pow10 e = (if 0 \<le> e then 10 ^ nat e else 1 / 10 ^ nat (- e))"

definition scan_number :: "string \<Rightarrow> (json \<times> string) option" where
  "scan_number s =
     (let (neg, s1) =
        (case s of
           [] \<Rightarrow> (False, s)
         | c # cs \<Rightarrow> if c = CHR ''-'' then (True, cs) else (False, s))
      in case scan_int_part s1 of
           None \<Rightarrow> None
         | Some (ds, s2) \<Rightarrow>
             (let (fs, s3) = (case scan_frac s2 of None \<Rightarrow> ([], s2) | Some p \<Rightarrow> p);
                  (ex, s4) = (case scan_exp s3 of None \<Rightarrow> (None, s3) | Some (e, r) \<Rightarrow> (Some e, r))
              in if fs = [] \<and> ex = None
                 then Some (JInt (if neg then - int (digits_val ds) else int (digits_val ds)), s4)
                 else
                   (let m = (of_nat (digits_val ds) + of_nat (digits_val fs) / 10 ^ length fs)
                              * pow10 (case ex of None \<Rightarrow> 0 | Some e \<Rightarrow> e)
                    in Some (JFloat (if neg then - m else m), s4))))"

text \<open>\<^verbatim>\<open>d[k] = v\<close> on a dict in insertion order.\<close>

fun dict_set :: "string \<Rightarrow> json \<Rightarrow> (string \<times> json) list \<Rightarrow> (string \<times> json) list" where
  "dict_set k v [] = [(k, v)]"
| "dict_set k v (p # ps) = (if fst p = k then (k, v) # ps else p # dict_set k v ps)"

text \<open>
  Values, array elements and object members. The first argument bounds the number of
  nested calls; every call reads at least one character, so the length of the text is
  enough.
\<close>

fun parse_value :: "nat \<Rightarrow> string \<Rightarrow> (json \<times> string) option"
  and parse_elements :: "nat \<Rightarrow> json list \<Rightarrow> string \<Rightarrow> (json list \<times> string) option"
  and parse_members ::
    "nat \<Rightarrow> (string \<times> json) list \<Rightarrow> string \<Rightarrow> ((string \<times> json) list \<times> string) option"
where
  \<open>parse_value 0 s = None\<close>
| \<open>parse_value (Suc n) s =
     (case s of
        [] \<Rightarrow> None
      | c # cs \<Rightarrow>
          if c = CHR ''"'' then
            (case scan_string [] cs of None \<Rightarrow> None | Some (t, r) \<Rightarrow> Some (JString t, r))
          else if c = CHR ''{'' then
            (case skip_ws cs of
               [] \<Rightarrow> None
             | d # ds \<Rightarrow>
                 if d = CHR ''}'' then Some (JObject [], ds)
                 else (case parse_members n [] (d # ds) of
                         None \<Rightarrow> None
                       | Some (kvs, r) \<Rightarrow> Some (JObject kvs, r)))
          else if c = CHR ''['' then
            (case skip_ws cs of
               [] \<Rightarrow> None
             | d # ds \<Rightarrow>
                 if d = CHR '']'' then Some (JArray [], ds)
                 else (case parse_elements n [] (d # ds) of
                         None \<Rightarrow> None
                       | Some (xs, r) \<Rightarrow> Some (JArray xs, r)))
          else if take 4 s = ''null'' then Some (JNull, drop 4 s)
          else if take 4 s = ''true'' then Some (JBool True, drop 4 s)
          else if take 5 s = ''false'' then Some (JBool False, drop 5 s)
          else scan_number s)\<close>
| \<open>parse_elements 0 acc s = None\<close>
| \<open>parse_elements (Suc n) acc s =
     (case parse_value n s of
        None \<Rightarrow> None
      | Some (v, r) \<Rightarrow>
          (case skip_ws r of
             [] \<Rightarrow> None
           | c # cs \<Rightarrow>
               if c = CHR '','' then parse_elements n (acc @ [v]) (skip_ws cs)
               else if c = CHR '']'' then Some (acc @ [v], cs)
               else None))\<close>
| \<open>parse_members 0 acc s = None\<close>
| \<open>parse_members (Suc n) acc s =
     (case s of
        [] \<Rightarrow> None
      | q # s0 \<Rightarrow>
          if q \<noteq> CHR ''"'' then None
          else
            (case scan_string [] s0 of
               None \<Rightarrow> None
             | Some (k, r1) \<Rightarrow>
                 (case skip_ws r1 of
                    [] \<Rightarrow> None
                  | c # r2 \<Rightarrow>
                      if c \<noteq> CHR '':'' then None
                      else
                        (case parse_value n (skip_ws r2) of
                           None \<Rightarrow> None
                         | Some (v, r3) \<Rightarrow>
                             (case skip_ws r3 of
                                [] \<Rightarrow> None
                              | d # r4 \<Rightarrow>
                                  if d = CHR '','' then
                                    parse_members n (dict_set k v acc) (skip_ws r4)
                                  else if d = CHR ''}'' then Some (dict_set k v acc, r4)
                                  else None)))))\<close>

definition json_decode :: "string \<Rightarrow> string + json" where
  "json_decode s =
     (case parse_value (Suc (length s)) (skip_ws s) of
        None \<Rightarrow> Inl ''Expecting value''
      | Some (v, r) \<Rightarrow> if skip_ws r = [] then Inr v else Inl ''Extra data'')"

section \<open>Stubs for running the model\<close>

text \<open>
  An upstream that answers every POST with the same result and records the requests it
  receives, the body of a completion response around a given content, a completion service
  \<open>stub_llm\<close> that answers 200 with a given text as the content, and fixed values for
  the library, the settings and the request of the examples.
\<close>

definition recording_client :: "post_result \<Rightarrow> http_request list client" where
  "recording_client r = (\<lambda>req sent. (r, sent @ [req]))"

definition json_quote :: "string \<Rightarrow> string" where
  \<open>json_quote s =
     ''"'' @
     concat (map (\<lambda>c. if c = CHR ''"'' \<or> c = CHR 0x5C then [CHR 0x5C, c] else [c]) s) @
     ''"''\<close>

definition completion_body :: "string \<Rightarrow> string" where
  \<open>completion_body t = ''{"choices":[{"message":{"content":'' @ json_quote t @ ''}}]}''\<close>

definition ok_response :: "string \<Rightarrow> post_result" where
  "ok_response body = Responds \<lparr>status_code = 200, response_text = body\<rparr>"

definition example_lib :: py_lib where
  "example_lib =
     \<lparr>json_loads = json_decode,
      status_error_str = (\<lambda>code. ''HTTP status error''),
      validation_error_str = (\<lambda>kvs. ''validation error for FillFormSuccessResponse'')\<rparr>"

definition example_settings :: Settings where
  "example_settings =
     \<lparr>llm_api_key = ''test-key'',
      llm_api_endpoint = ''https://llm.example.com/v1/completions'',
      app_name = ''AI Form Filler Backend'',
      cors_origins = [''http://localhost:3000'']\<rparr>"

definition example_request :: FillFormRequest where
  "example_request =
     FillFormRequest_init [''name'', ''email''] ''John Doe, john@example.com'' None"

definition stub_llm :: "string \<Rightarrow> http_request list client" where
  "stub_llm t = recording_client (ok_response (completion_body t))"

definition example_service :: LLMService where
  "example_service =
     LLMService_init (llm_api_key example_settings) (llm_api_endpoint example_settings)"

text \<open>The whole path of a request: the endpoint, then the reply the application sends.\<close>

definition fill_form_reply ::
  "py_lib \<Rightarrow> 'w client \<Rightarrow> FillFormRequest \<Rightarrow> Settings \<Rightarrow> 'w \<Rightarrow> http_reply" where
  "fill_form_reply lib client request_data settings w =
     app_reply (fst (fill_form_endpoint lib client request_data settings w))"

text \<open>
  The specification's reading of \<^verbatim>\<open>choices[0].message.content\<close>: a path through a JSON
  object, the first element of an array, and two more objects. It is what
  \<open>extract_content\<close>, which follows the code, is compared with.
\<close>

definition content_path :: "json \<Rightarrow> json option" where
  "content_path v =
     (case v of
        JObject kvs \<Rightarrow>
          (case map_of kvs ''choices'' of
             Some (JArray (JObject choice # rest)) \<Rightarrow>
               (case map_of choice ''message'' of
                  Some (JObject msg) \<Rightarrow> map_of msg ''content''
                | _ \<Rightarrow> None)
           | _ \<Rightarrow> None)
      | _ \<Rightarrow> None)"

section \<open>Lemmas on the model\<close>

lemma and_then_simps:
  "and_then (Inl e) f = Inl e"
  "and_then (Inr v) f = f v"
  by (simp_all add: and_then_def)

lemma get_completion_world:
  "snd (get_completion lib self p client w) = snd (client (post_request self p) w)"
  by (simp add: get_completion_def split: prod.splits)

lemma get_completion_raises:
  "client (post_request self p) w = (Raises e, w') \<Longrightarrow>
   get_completion lib self p client w = (Inl (on_exception e), w')"
  by (simp add: get_completion_def)

lemma get_completion_responds:
  "client (post_request self p) w = (Responds r, w') \<Longrightarrow>
   get_completion lib self p client w =
     (case and_then (raise_for_status lib r) (\<lambda>_. and_then (response_json lib r) extract_content) of
        Inl e \<Rightarrow> Inl (on_exception e) | Inr c \<Rightarrow> Inr c, w')"
  by (simp add: get_completion_def)

lemma endpoint_failure:
  "get_completion lib (LLMService_init (llm_api_key settings) (llm_api_endpoint settings))
     (prompt request_data) client w = (Inl e, w') \<Longrightarrow>
   fill_form_endpoint lib client request_data settings w =
     (Inl (HTTPException 503 (''LLM service request failed: '' @ exn_str e)), w')"
  by (simp add: fill_form_endpoint_def)

lemma endpoint_success:
  "get_completion lib (LLMService_init (llm_api_key settings) (llm_api_endpoint settings))
     (prompt request_data) client w = (Inr c, w') \<Longrightarrow>
   fill_form_endpoint lib client request_data settings w = (parse_stage lib c, w')"
  by (simp add: fill_form_endpoint_def)

lemma py_in_dict: "py_in k (JObject kvs) = Inr (map_of kvs k \<noteq> None)"
  by (simp add: map_of_eq_None_iff)

lemma extract_content_path:
  "content_path v = Some c \<Longrightarrow> extract_content v = Inr c"
  unfolding content_path_def extract_content_def
  by (auto simp: and_then_simps py_in_dict simp del: py_in.simps(1)
      split: json.splits option.splits list.splits)

lemma extract_content_no_path:
  "content_path v = None \<Longrightarrow> \<exists>e. extract_content v = Inl e"
proof (cases v)
  case (JObject kvs)
  assume np: "content_path v = None"
  show ?thesis
  proof (cases "map_of kvs ''choices''")
    case None
    with JObject show ?thesis
      by (simp add: extract_content_def and_then_simps no_content_def py_in_dict del: py_in.simps(1))
  next
    case (Some ch)
    note ch = Some
    have inn: "py_in ''choices'' v = Inr True"
      using JObject ch by (simp add: py_in_dict del: py_in.simps(1))
    have gi: "py_getitem v ''choices'' = Inr ch" using JObject ch by simp
    show ?thesis
    proof (cases "py_bool ch")
      case False
      then show ?thesis using inn gi
        by (simp add: extract_content_def and_then_simps no_content_def)
    next
      case True
      have ec: "extract_content v =
            and_then (py_getitem0 ch) (\<lambda>choice.
            and_then (py_get choice ''message'' (JObject [])) (\<lambda>msg.
            and_then (py_in ''content'' msg) (\<lambda>has_content.
              if has_content then py_getitem msg ''content'' else no_content)))"
        using True inn gi by (simp add: extract_content_def and_then_simps)
      show ?thesis
      proof (cases ch)
        case (JArray xs)
        then obtain x rest where xs: "xs = x # rest" using True by (cases xs) auto
        show ?thesis
        proof (cases x)
          case (JObject choice)
          note choice = JObject
          show ?thesis
          proof (cases "map_of choice ''message''")
            case None
            then show ?thesis using ec JArray xs choice
              by (simp add: and_then_simps no_content_def)
          next
            case (Some msg)
            have "map_of kvs ''choices'' = Some (JArray (JObject choice # rest))"
              using ch JArray xs choice by simp
            then show ?thesis using ec JArray xs choice Some np \<open>v = JObject kvs\<close>
              by (cases msg)
                 (auto simp: and_then_simps no_content_def content_path_def
                    py_in_dict simp del: py_in.simps(1))
          qed
        qed (use ec JArray xs in \<open>simp_all add: and_then_simps\<close>)
      qed (use ec True in \<open>auto simp: and_then_simps split: list.splits\<close>)
    qed
  qed
qed (simp_all add: extract_content_def and_then_simps no_content_def split: if_splits)

lemmas decode_simps =
  json_decode_def skip_ws_def is_ws_def is_digit_def scan_number_def scan_int_part_def
  scan_frac_def scan_exp_def digits_val_def digit_val_def unescape_def pow10_def

lemma on_exception_simps:
  "on_exception (Exn HTTPStatusError m) = Exn HTTPStatusError m"
  "on_exception (Exn RequestError m) = Exn RequestError m"
  "on_exception (Exn JSONDecodeError m) = Exn ValueError (''Error parsing LLM API response: '' @ m)"
  "on_exception (Exn ValueError m) = Exn ValueError (''Error parsing LLM API response: '' @ m)"
  "on_exception (Exn KeyError m) = Exn ValueError (''Error parsing LLM API response: '' @ m)"
  "on_exception (Exn TypeError m) = Exn TypeError m"
  "on_exception (Exn AttributeError m) = Exn AttributeError m"
  "on_exception (Exn IndexError m) = Exn IndexError m"
  by (simp_all add: on_exception_def is_ValueError_def)

lemma get_completion_fst_cong:
  "fst (client (post_request self p) w1) = fst (client (post_request self p) w2) \<Longrightarrow>
   fst (get_completion lib self p client w1) = fst (get_completion lib self p client w2)"
  by (cases "client (post_request self p) w1"; cases "client (post_request self p) w2")
     (simp add: get_completion_def)

lemma endpoint_fst:
  "fst (fill_form_endpoint lib client request_data settings w) =
     (case fst (get_completion lib
             (LLMService_init (llm_api_key settings) (llm_api_endpoint settings))
             (prompt request_data) client w) of
        Inl e \<Rightarrow> Inl (HTTPException 503 (''LLM service request failed: '' @ exn_str e))
      | Inr c \<Rightarrow> parse_stage lib c)"
  by (simp add: fill_form_endpoint_def split: prod.splits sum.splits)

lemma endpoint_snd:
  "snd (fill_form_endpoint lib client request_data settings w) =
     snd (client (post_request
            (LLMService_init (llm_api_key settings) (llm_api_endpoint settings))
            (prompt request_data)) w)"
  using get_completion_world[of lib "LLMService_init (llm_api_key settings) (llm_api_endpoint settings)"
      "prompt request_data" client w]
  by (cases "get_completion lib
        (LLMService_init (llm_api_key settings) (llm_api_endpoint settings))
        (prompt request_data) client w")
     (auto simp: fill_form_endpoint_def split: sum.splits)

lemma stub_completion:
  "json_loads lib body = Inr v \<Longrightarrow> content_path v = Some c \<Longrightarrow>
   get_completion lib self p (recording_client (ok_response body)) sent =
     (Inr c, sent @ [post_request self p])"
  by (simp add: get_completion_def recording_client_def ok_response_def raise_for_status_def
      response_json_def and_then_simps extract_content_path)

lemma stub_completion_fails:
  "json_loads lib body = Inr v \<Longrightarrow> extract_content v = Inl e \<Longrightarrow>
   get_completion lib self p (recording_client (ok_response body)) sent =
     (Inl (on_exception e), sent @ [post_request self p])"
  by (simp add: get_completion_def recording_client_def ok_response_def raise_for_status_def
      response_json_def and_then_simps)

lemma parse_stage_object:
  "json_loads lib t = Inr (JObject kvs) \<Longrightarrow>
   parse_stage lib (JString t) =
     (case FillFormSuccessResponse_init lib kvs of Inl e \<Rightarrow> Inl (Uncaught e) | Inr r \<Rightarrow> Inr r)"
  by (simp add: parse_stage_def py_json_loads_def and_then_simps)

lemma unquote_values:
  "list_all (\<lambda>(k, v). is_str v) kvs \<Longrightarrow>
   map (\<lambda>(k, s). (k, JString s)) (map (\<lambda>(k, v). (k, str_of v)) kvs) = kvs"
proof (induction kvs)
  case Nil
  then show ?case by simp
next
  case (Cons kv kvs)
  obtain k v where kv: "kv = (k, v)" by (cases kv)
  with Cons.prems have "is_str v" by simp
  then obtain s where "v = JString s" by (cases v) simp_all
  with Cons kv show ?case by simp
qed

lemma sublist_in_context: "sublist xs ys \<Longrightarrow> sublist xs (ps @ ys @ ss)"
  unfolding sublist_def by (metis append.assoc)

lemma bullet_line_in_join:
  "f \<in> set fs \<Longrightarrow>
   sublist (''\<newline>- '' @ f @ ''\<newline>'')
     (''\<newline>'' @ join ''\<newline>'' (map (\<lambda>field. ''- '' @ field) fs) @ ''\<newline>'')"
proof (induction fs rule: induct_list012)
  case 1
  then show ?case by simp
next
  case (2 x)
  then show ?case by simp
next
  case (3 x y zs)
  show ?case
  proof (cases "f = x")
    case True
    have "''\<newline>'' @ join ''\<newline>'' (map (\<lambda>field. ''- '' @ field) (x # y # zs)) @ ''\<newline>'' =
          (''\<newline>- '' @ f @ ''\<newline>'') @
          (join ''\<newline>'' (map (\<lambda>field. ''- '' @ field) (y # zs)) @ ''\<newline>'')"
      using True by simp
    then show ?thesis by (metis sublist_append_rightI)
  next
    case False
    with "3.prems" have "f \<in> set (y # zs)" by simp
    from "3.IH"(2)[OF this]
    have "sublist (''\<newline>- '' @ f @ ''\<newline>'')
            ((''\<newline>- '' @ x) @
             (''\<newline>'' @ join ''\<newline>'' (map (\<lambda>field. ''- '' @ field) (y # zs)) @ ''\<newline>'') @ [])"
      by (rule sublist_in_context)
    then show ?thesis by simp
  qed
qed

text \<open>The decoder on the texts of the examples.\<close>

lemma decode_name_email:
  \<open>json_loads example_lib ''{"name": "John Doe", "email": "john@example.com"}'' =
     Inr (JObject [(''name'', JString ''John Doe''), (''email'', JString ''john@example.com'')])\<close>
  by (simp add: example_lib_def decode_simps)

lemma decode_prose:
  \<open>json_loads example_lib ''Sure! Here's your data: {"name": "John"}'' = Inl ''Expecting value''\<close>
  by (simp add: example_lib_def decode_simps)

lemma decode_array:
  \<open>json_loads example_lib ''["John Doe", "john@example.com"]'' =
     Inr (JArray [JString ''John Doe'', JString ''john@example.com''])\<close>
  by (simp add: example_lib_def decode_simps)

lemma decode_number_value:
  \<open>json_loads example_lib ''{"name": "John Doe", "age": 42}'' =
     Inr (JObject [(''name'', JString ''John Doe''), (''age'', JInt 42)])\<close>
  by (simp add: example_lib_def decode_simps)

lemma decode_nested_value:
  \<open>json_loads example_lib ''{"name": "John Doe", "address": {"city": "Paris"}}'' =
     Inr (JObject [(''name'', JString ''John Doe''),
                   (''address'', JObject [(''city'', JString ''Paris'')])])\<close>
  by (simp add: example_lib_def decode_simps)

lemma decode_other_keys:
  \<open>json_loads example_lib ''{"name": "John Doe", "phone": "555-0100"}'' =
     Inr (JObject [(''name'', JString ''John Doe''), (''phone'', JString ''555-0100'')])\<close>
  by (simp add: example_lib_def decode_simps)

lemma decode_no_choices:
  \<open>json_loads example_lib ''{"choices": []}'' = Inr (JObject [(''choices'', JArray [])])\<close>
  by (simp add: example_lib_def decode_simps)

lemma decode_choice_number:
  \<open>json_loads example_lib ''{"choices": [42]}'' = Inr (JObject [(''choices'', JArray [JInt 42])])\<close>
  by (simp add: example_lib_def decode_simps)

lemma decode_not_json:
  \<open>json_loads example_lib ''<html>Bad Gateway</html>'' = Inl ''Expecting value''\<close>
  by (simp add: example_lib_def decode_simps)

lemma stub_llm_completion:
  assumes "json_loads example_lib (completion_body t) =
     Inr (JObject [(''choices'', JArray [JObject [(''message'',
       JObject [(''content'', JString t)])]])])"
  shows "get_completion example_lib self p (stub_llm t) sent =
     (Inr (JString t), sent @ [post_request self p])"
  unfolding stub_llm_def by (rule stub_completion[OF assms]) (simp add: content_path_def)

lemma stub_llm_endpoint:
  assumes "json_loads example_lib (completion_body t) =
     Inr (JObject [(''choices'', JArray [JObject [(''message'',
       JObject [(''content'', JString t)])]])])"
  shows "fst (fill_form_endpoint example_lib (stub_llm t) request_data settings sent) =
     parse_stage example_lib (JString t)"
  by (simp add: endpoint_fst stub_llm_completion[OF assms])

lemma body_name_email:
  \<open>json_loads example_lib
      (completion_body ''{"name": "John Doe", "email": "john@example.com"}'') =
     Inr (JObject [(''choices'', JArray [JObject [(''message'',
       JObject [(''content'', JString ''{"name": "John Doe", "email": "john@example.com"}'')])]])])\<close>
  by (simp add: example_lib_def decode_simps completion_body_def json_quote_def)

lemma body_prose:
  \<open>json_loads example_lib (completion_body ''Sure! Here's your data: {"name": "John"}'') =
     Inr (JObject [(''choices'', JArray [JObject [(''message'',
       JObject [(''content'', JString ''Sure! Here's your data: {"name": "John"}'')])]])])\<close>
  by (simp add: example_lib_def decode_simps completion_body_def json_quote_def)

lemma body_array:
  \<open>json_loads example_lib (completion_body ''["John Doe", "john@example.com"]'') =
     Inr (JObject [(''choices'', JArray [JObject [(''message'',
       JObject [(''content'', JString ''["John Doe", "john@example.com"]'')])]])])\<close>
  by (simp add: example_lib_def decode_simps completion_body_def json_quote_def)

lemma body_number_value:
  \<open>json_loads example_lib (completion_body ''{"name": "John Doe", "age": 42}'') =
     Inr (JObject [(''choices'', JArray [JObject [(''message'',
       JObject [(''content'', JString ''{"name": "John Doe", "age": 42}'')])]])])\<close>
  by (simp add: example_lib_def decode_simps completion_body_def json_quote_def)

lemma body_nested_value:
  \<open>json_loads example_lib
      (completion_body ''{"name": "John Doe", "address": {"city": "Paris"}}'') =
     Inr (JObject [(''choices'', JArray [JObject [(''message'',
       JObject [(''content'',
         JString ''{"name": "John Doe", "address": {"city": "Paris"}}'')])]])])\<close>
  by (simp add: example_lib_def decode_simps completion_body_def json_quote_def)

lemma body_other_keys:
  \<open>json_loads example_lib (completion_body ''{"name": "John Doe", "phone": "555-0100"}'') =
     Inr (JObject [(''choices'', JArray [JObject [(''message'',
       JObject [(''content'', JString ''{"name": "John Doe", "phone": "555-0100"}'')])]])])\<close>
  by (simp add: example_lib_def decode_simps completion_body_def json_quote_def)

lemma body_padded:
  \<open>json_loads example_lib (completion_body ''  John Doe  '') =
     Inr (JObject [(''choices'', JArray [JObject [(''message'',
       JObject [(''content'', JString ''  John Doe  '')])]])])\<close>
  by (simp add: example_lib_def decode_simps completion_body_def json_quote_def)

lemma decode_null_value:
  \<open>json_loads example_lib ''{"name": null}'' = Inr (JObject [(''name'', JNull)])\<close>
  by (simp add: example_lib_def decode_simps)

lemma body_null_value:
  \<open>json_loads example_lib (completion_body ''{"name": null}'') =
     Inr (JObject [(''choices'', JArray [JObject [(''message'',
       JObject [(''content'', JString ''{"name": null}'')])]])])\<close>
  by (simp add: example_lib_def decode_simps completion_body_def json_quote_def)

lemma extract_no_choices: "extract_content (JObject [(''choices'', JArray [])]) = no_content"
  by (simp add: extract_content_def and_then_simps)

lemma extract_choice_number:
  "extract_content (JObject [(''choices'', JArray [JInt 42])]) =
     Inl (Exn AttributeError (sq ''int'' @ '' object has no attribute '' @ sq ''get''))"
  by (simp add: extract_content_def and_then_simps)

lemma example_request_simps:
  "form_fields example_request = [''name'', ''email'']"
  "source_content example_request = ''John Doe, john@example.com''"
  "prompt_template_id example_request = Some ''default_v1''"
  by (simp_all add: example_request_def FillFormRequest_init_def)

lemma recording_client_post:
  "recording_client r req sent = (r, sent @ [req])"
  by (simp add: recording_client_def)

text \<open>
  What the endpoint does when the upstream fails (in transport, with a status outside 2xx,
  with a 2xx body that is not JSON or lacks the path \<^verbatim>\<open>choices[0].message.content\<close>)
  and when the returned text does not decode to an object: an \<^verbatim>\<open>HTTPException\<close> with
  status 503 or 500, whose detail embeds the description of the failure. After a failure
  of the upstream the world is the one the single POST left.
\<close>

lemma upstream_failure:
  assumes "client (post_request
             (LLMService_init (llm_api_key settings) (llm_api_endpoint settings))
             (prompt request_data)) w = (posted, w')"
    and "posted = Raises (Exn RequestError m)
       \<or> (\<exists>r. posted = Responds r \<and> \<not> (200 \<le> status_code r \<and> status_code r < 300))
       \<or> (\<exists>r msg. posted = Responds r \<and> 200 \<le> status_code r \<and> status_code r < 300
              \<and> json_loads lib (response_text r) = Inl msg)
       \<or> (\<exists>r v. posted = Responds r \<and> 200 \<le> status_code r \<and> status_code r < 300
              \<and> json_loads lib (response_text r) = Inr v \<and> content_path v = None)"
  shows "\<exists>e. get_completion lib
               (LLMService_init (llm_api_key settings) (llm_api_endpoint settings))
               (prompt request_data) client w = (Inl e, w')
           \<and> fill_form_endpoint lib client request_data settings w =
               (Inl (HTTPException 503 (''LLM service request failed: '' @ exn_str e)), w')
           \<and> fill_form_reply lib client request_data settings w =
               \<lparr>reply_status = 503,
                reply_body = DetailBody (''LLM service request failed: '' @ exn_str e)\<rparr>
           \<and> (posted = Raises (Exn RequestError m) \<longrightarrow> exn_str e = m)
           \<and> (\<forall>r. posted = Responds r \<and> \<not> (200 \<le> status_code r \<and> status_code r < 300)
                 \<longrightarrow> exn_str e = status_error_str lib (status_code r))
           \<and> (\<forall>r msg. posted = Responds r \<and> 200 \<le> status_code r \<and> status_code r < 300
                 \<and> json_loads lib (response_text r) = Inl msg
                 \<longrightarrow> exn_str e = ''Error parsing LLM API response: '' @ msg)"
proof -
  let ?svc = "LLMService_init (llm_api_key settings) (llm_api_endpoint settings)"
  let ?gc = "get_completion lib ?svc (prompt request_data) client w"
  have gc: "\<exists>e. ?gc = (Inl e, w')
           \<and> (posted = Raises (Exn RequestError m) \<longrightarrow> exn_str e = m)
           \<and> (\<forall>r. posted = Responds r \<and> \<not> (200 \<le> status_code r \<and> status_code r < 300)
                 \<longrightarrow> exn_str e = status_error_str lib (status_code r))
           \<and> (\<forall>r msg. posted = Responds r \<and> 200 \<le> status_code r \<and> status_code r < 300
                 \<and> json_loads lib (response_text r) = Inl msg
                 \<longrightarrow> exn_str e = ''Error parsing LLM API response: '' @ msg)"
    using assms(2)
  proof (elim disjE conjE exE)
    assume "posted = Raises (Exn RequestError m)"
    then show ?thesis using assms(1)
      by (simp add: get_completion_def on_exception_simps)
  next
    fix r
    assume "posted = Responds r" "\<not> (200 \<le> status_code r \<and> status_code r < 300)"
    then show ?thesis using assms(1)
      by (auto simp: get_completion_def raise_for_status_def and_then_simps on_exception_simps)
  next
    fix r msg
    assume "posted = Responds r" "200 \<le> status_code r" "status_code r < 300"
      "json_loads lib (response_text r) = Inl msg"
    then show ?thesis using assms(1)
      by (simp add: get_completion_def raise_for_status_def response_json_def and_then_simps
          on_exception_simps)
  next
    fix r v
    assume a: "posted = Responds r" "200 \<le> status_code r" "status_code r < 300"
      "json_loads lib (response_text r) = Inr v" "content_path v = None"
    from extract_content_no_path[OF a(5)] obtain e where "extract_content v = Inl e" ..
    with a show ?thesis using assms(1)
      by (simp add: get_completion_def raise_for_status_def response_json_def and_then_simps)
  qed
  then obtain e where e: "?gc = (Inl e, w')"
    and rest: "(posted = Raises (Exn RequestError m) \<longrightarrow> exn_str e = m)
           \<and> (\<forall>r. posted = Responds r \<and> \<not> (200 \<le> status_code r \<and> status_code r < 300)
                 \<longrightarrow> exn_str e = status_error_str lib (status_code r))
           \<and> (\<forall>r msg. posted = Responds r \<and> 200 \<le> status_code r \<and> status_code r < 300
                 \<and> json_loads lib (response_text r) = Inl msg
                 \<longrightarrow> exn_str e = ''Error parsing LLM API response: '' @ msg)"
    by blast
  have "fill_form_endpoint lib client request_data settings w =
          (Inl (HTTPException 503 (''LLM service request failed: '' @ exn_str e)), w')"
    using e by (simp add: endpoint_failure)
  moreover from this have "fill_form_reply lib client request_data settings w =
       \<lparr>reply_status = 503,
        reply_body = DetailBody (''LLM service request failed: '' @ exn_str e)\<rparr>"
    by (simp add: fill_form_reply_def)
  ultimately show ?thesis using e rest by blast
qed

lemma parse_failure:
  assumes "fst (get_completion lib
             (LLMService_init (llm_api_key settings) (llm_api_endpoint settings))
             (prompt request_data) client w) = Inr (JString t)"
  shows "(\<forall>msg. json_loads lib t = Inl msg \<longrightarrow>
            fill_form_reply lib client request_data settings w =
              \<lparr>reply_status = 500,
               reply_body = DetailBody (''Failed to parse LLM response: '' @ msg)\<rparr>)
       \<and> (\<forall>v. json_loads lib t = Inr v \<and> \<not> is_dict v \<longrightarrow>
            fill_form_reply lib client request_data settings w =
              \<lparr>reply_status = 500,
               reply_body = DetailBody
                 (''Failed to parse LLM response: '' @
                  ''LLM response was not a valid JSON object.'')\<rparr>)
       \<and> (\<forall>v. json_loads lib t = Inr v \<and> is_dict v \<longrightarrow>
            (\<forall>code detail. fst (fill_form_endpoint lib client request_data settings w)
               \<noteq> Inl (HTTPException code detail)))"
proof -
  have e: "fst (fill_form_endpoint lib client request_data settings w) = parse_stage lib (JString t)"
    using assms by (simp add: endpoint_fst)
  have a: "parse_stage lib (JString t) =
             Inl (HTTPException 500 (''Failed to parse LLM response: '' @ msg))"
    if "json_loads lib t = Inl msg" for msg
    using that by (simp add: parse_stage_def py_json_loads_def and_then_simps is_ValueError_def)
  have b: "parse_stage lib (JString t) =
             Inl (HTTPException 500 (''Failed to parse LLM response: '' @
                  ''LLM response was not a valid JSON object.''))"
    if "json_loads lib t = Inr v" and "\<not> is_dict v" for v
    using that by (simp add: parse_stage_def py_json_loads_def and_then_simps is_ValueError_def)
  have c: "parse_stage lib (JString t) \<noteq> Inl (HTTPException code detail)"
    if "json_loads lib t = Inr v" and "is_dict v" for v code detail
    using that
    by (simp add: parse_stage_def py_json_loads_def and_then_simps split: sum.splits)
  show ?thesis using a b c by (simp add: fill_form_reply_def e)
qed

section \<open>The claims\<close>

text \<open>
  Claim C1 as stated, for every text that is a JSON object, fails where a value is a number:
  the text \<^verbatim>\<open>{"name": "John Doe", "age": 42}\<close> is returned by the completion client and
  decodes to an object, and the reply is the HTTP 500 of the global exception handler.
\<close>

theorem number_value_not_returned:
  \<open>fst (get_completion example_lib example_service (prompt example_request)
          (stub_llm ''{"name": "John Doe", "age": 42}'') []) =
       Inr (JString ''{"name": "John Doe", "age": 42}'')
   \<and> json_loads example_lib ''{"name": "John Doe", "age": 42}'' =
       Inr (JObject [(''name'', JString ''John Doe''), (''age'', JInt 42)])
   \<and> fill_form_reply example_lib (stub_llm ''{"name": "John Doe", "age": 42}'')
         example_request example_settings [] =
       \<lparr>reply_status = 500,
        reply_body = ErrorBody
          \<lparr>error_status = ''error'',
           message = ''An unexpected internal server error occurred.''\<rparr>\<rparr>\<close>
  by (simp add: stub_llm_completion[OF body_number_value] decode_number_value
      fill_form_reply_def stub_llm_endpoint[OF body_number_value]
      parse_stage_object[OF decode_number_value] FillFormSuccessResponse_init_def
      global_exception_handler_def)

text \<open>
  Claim C1, amended. When the completion client returns a text that decodes to a JSON
  object whose values are all strings, the reply is HTTP 200 with a response model of status
  \<^verbatim>\<open>success\<close> whose \<open>filled_data\<close> is the decoded mapping.
\<close>

theorem fill_form_success:
  assumes "fst (get_completion lib
             (LLMService_init (llm_api_key settings) (llm_api_endpoint settings))
             (prompt request_data) client w) = Inr (JString t)"
    and "json_loads lib t = Inr (JObject kvs)"
    and "list_all (\<lambda>(k, v). is_str v) kvs"
  shows "\<exists>r. fill_form_reply lib client request_data settings w =
               \<lparr>reply_status = 200, reply_body = SuccessBody r\<rparr>
           \<and> status r = ''success''
           \<and> map (\<lambda>(k, s). (k, JString s)) (filled_data r) = kvs"
  using assms
  by (simp add: fill_form_reply_def endpoint_fst parse_stage_object
      FillFormSuccessResponse_init_def unquote_values del: map_map)

theorem fill_form_success_witness:
  \<open>fst (get_completion example_lib
          (LLMService_init (llm_api_key example_settings) (llm_api_endpoint example_settings))
          (prompt example_request)
          (stub_llm ''{"name": "John Doe", "email": "john@example.com"}'') []) =
       Inr (JString ''{"name": "John Doe", "email": "john@example.com"}'')
   \<and> json_loads example_lib ''{"name": "John Doe", "email": "john@example.com"}'' =
       Inr (JObject [(''name'', JString ''John Doe''), (''email'', JString ''john@example.com'')])
   \<and> (\<exists>r. fill_form_reply example_lib
              (stub_llm ''{"name": "John Doe", "email": "john@example.com"}'')
              example_request example_settings [] =
            \<lparr>reply_status = 200, reply_body = SuccessBody r\<rparr>
          \<and> status r = ''success''
          \<and> map (\<lambda>(k, s). (k, JString s)) (filled_data r) =
              [(''name'', JString ''John Doe''), (''email'', JString ''john@example.com'')])\<close>
proof -
  let ?t = \<open>''{"name": "John Doe", "email": "john@example.com"}''\<close>
  have c: "fst (get_completion example_lib
          (LLMService_init (llm_api_key example_settings) (llm_api_endpoint example_settings))
          (prompt example_request) (stub_llm ?t) []) = Inr (JString ?t)"
    by (simp add: stub_llm_completion[OF body_name_email])
  have v: "list_all (\<lambda>(k, v). is_str v)
             [(''name'', JString ''John Doe''), (''email'', JString ''john@example.com'')]"
    by simp
  show ?thesis
    using c decode_name_email fill_form_success[OF c decode_name_email v] by blast
qed

text \<open>
  Claim C2. When the completion client fails, the reply is HTTP 503 with an error envelope
  whose message embeds the description of the failure, and nothing is sent again. On a
  transport failure the code does send the one POST, reply 503 and embed the description,
  but as the detail of an \<^verbatim>\<open>HTTPException\<close>: the body is not the
  \<^verbatim>\<open>ErrorResponse\<close> envelope that the route declares for 503.
\<close>

theorem upstream_failure_reply_body:
  "fill_form_endpoint example_lib
      (recording_client (Raises (Exn RequestError ''All connection attempts failed'')))
      example_request example_settings [] =
     (Inl (HTTPException 503
        ''LLM service request failed: All connection attempts failed''),
      [post_request example_service (prompt example_request)])
   \<and> fill_form_reply example_lib
      (recording_client (Raises (Exn RequestError ''All connection attempts failed'')))
      example_request example_settings [] =
     \<lparr>reply_status = 503,
      reply_body = DetailBody
        ''LLM service request failed: All connection attempts failed''\<rparr>
   \<and> declares_ErrorResponse 503
   \<and> \<not> is_ErrorResponse (reply_body (fill_form_reply example_lib
      (recording_client (Raises (Exn RequestError ''All connection attempts failed'')))
      example_request example_settings []))"
proof -
  have g: "get_completion example_lib example_service (prompt example_request)
      (recording_client (Raises (Exn RequestError ''All connection attempts failed''))) [] =
     (Inl (Exn RequestError ''All connection attempts failed''),
      [post_request example_service (prompt example_request)])"
    by (simp add: get_completion_def recording_client_def on_exception_simps)
  have e: "fill_form_endpoint example_lib
      (recording_client (Raises (Exn RequestError ''All connection attempts failed'')))
      example_request example_settings [] =
     (Inl (HTTPException 503
        (''LLM service request failed: '' @ ''All connection attempts failed'')),
      [post_request example_service (prompt example_request)])"
    using g unfolding example_service_def by (simp add: endpoint_failure)
  show ?thesis
    using e by (simp add: fill_form_reply_def declares_ErrorResponse_def)
qed

text \<open>
  Claim C3. When the completion client returns a text that is not valid JSON or not a JSON
  object, the reply is HTTP 500 with an error envelope that describes the parse failure. On
  the text \<^verbatim>\<open>["John Doe", "john@example.com"]\<close> the code does reply 500 and describe
  the failure, but as the detail of an \<^verbatim>\<open>HTTPException\<close>: the body is not the
  \<^verbatim>\<open>ErrorResponse\<close> envelope that the route declares for 500.
\<close>

theorem parse_failure_reply_body:
  \<open>fst (get_completion example_lib example_service (prompt example_request)
          (stub_llm ''["John Doe", "john@example.com"]'') []) =
       Inr (JString ''["John Doe", "john@example.com"]'')
   \<and> json_loads example_lib ''["John Doe", "john@example.com"]'' =
       Inr (JArray [JString ''John Doe'', JString ''john@example.com''])
   \<and> fill_form_reply example_lib (stub_llm ''["John Doe", "john@example.com"]'')
        example_request example_settings [] =
       \<lparr>reply_status = 500,
        reply_body = DetailBody
          ''Failed to parse LLM response: LLM response was not a valid JSON object.''\<rparr>
   \<and> declares_ErrorResponse 500
   \<and> \<not> is_ErrorResponse (reply_body (fill_form_reply example_lib
        (stub_llm ''["John Doe", "john@example.com"]'') example_request example_settings []))\<close>
  by (simp add: stub_llm_completion[OF body_array] decode_array fill_form_reply_def
      stub_llm_endpoint[OF body_array] parse_stage_def py_json_loads_def and_then_simps
      is_ValueError_def declares_ErrorResponse_def)

text \<open>
  Claim C4 as stated fails on an object with a nested object as a value: the text
  \<^verbatim>\<open>{"name": "John Doe", "address": {"city": "Paris"}}\<close> decodes to an object, yet the
  reply is the HTTP 500 of the global exception handler, not HTTP 200.
\<close>

theorem nested_value_not_returned:
  \<open>fst (get_completion example_lib example_service (prompt example_request)
          (stub_llm ''{"name": "John Doe", "address": {"city": "Paris"}}'') []) =
       Inr (JString ''{"name": "John Doe", "address": {"city": "Paris"}}'')
   \<and> json_loads example_lib ''{"name": "John Doe", "address": {"city": "Paris"}}'' =
       Inr (JObject [(''name'', JString ''John Doe''),
                     (''address'', JObject [(''city'', JString ''Paris'')])])
   \<and> fill_form_reply example_lib
         (stub_llm ''{"name": "John Doe", "address": {"city": "Paris"}}'')
         example_request example_settings [] =
       \<lparr>reply_status = 500,
        reply_body = ErrorBody
          \<lparr>error_status = ''error'',
           message = ''An unexpected internal server error occurred.''\<rparr>\<rparr>\<close>
  by (simp add: stub_llm_completion[OF body_nested_value] decode_nested_value
      fill_form_reply_def stub_llm_endpoint[OF body_nested_value]
      parse_stage_object[OF decode_nested_value] FillFormSuccessResponse_init_def
      global_exception_handler_def)

text \<open>
  Claim C4, amended. When the completion client returns a text that decodes to a JSON
  object, the keys are not checked against the requested fields. The values are: if all of
  them are strings the object is returned as \<open>filled_data\<close> with HTTP 200, and if one is
  not, the construction of the response model raises a \<^verbatim>\<open>ValidationError\<close> and the reply
  is not HTTP 200.
\<close>

theorem filled_data_validation:
  assumes "fst (get_completion lib
             (LLMService_init (llm_api_key settings) (llm_api_endpoint settings))
             (prompt request_data) client w) = Inr (JString t)"
    and "json_loads lib t = Inr (JObject kvs)"
  shows "(list_all (\<lambda>(k, v). is_str v) kvs \<longrightarrow>
            fill_form_reply lib client request_data settings w =
              \<lparr>reply_status = 200,
               reply_body = SuccessBody
                 \<lparr>status = ''success'', filled_data = map (\<lambda>(k, v). (k, str_of v)) kvs\<rparr>\<rparr>)
       \<and> (\<not> list_all (\<lambda>(k, v). is_str v) kvs \<longrightarrow>
            fst (fill_form_endpoint lib client request_data settings w) =
              Inl (Uncaught (Exn ValidationError (validation_error_str lib kvs)))
          \<and> reply_status (fill_form_reply lib client request_data settings w) \<noteq> 200)"
  using assms
  by (simp add: fill_form_reply_def endpoint_fst parse_stage_object
      FillFormSuccessResponse_init_def global_exception_handler_def)

theorem filled_data_validation_witness:
  \<open>fill_form_reply example_lib (stub_llm ''{"name": "John Doe", "phone": "555-0100"}'')
      example_request example_settings [] =
     \<lparr>reply_status = 200,
      reply_body = SuccessBody
        \<lparr>status = ''success'',
         filled_data = [(''name'', ''John Doe''), (''phone'', ''555-0100'')]\<rparr>\<rparr>
   \<and> fst (fill_form_endpoint example_lib (stub_llm ''{"name": null}'')
        example_request example_settings []) =
     Inl (Uncaught (Exn ValidationError ''validation error for FillFormSuccessResponse''))
   \<and> reply_status (fill_form_reply example_lib (stub_llm ''{"name": null}'')
        example_request example_settings []) \<noteq> 200\<close>
proof -
  let ?t = \<open>''{"name": "John Doe", "phone": "555-0100"}''\<close>
  let ?u = \<open>''{"name": null}''\<close>
  have c: "fst (get_completion example_lib
          (LLMService_init (llm_api_key example_settings) (llm_api_endpoint example_settings))
          (prompt example_request) (stub_llm ?t) []) = Inr (JString ?t)"
    by (simp add: stub_llm_completion[OF body_other_keys])
  have d: "fst (get_completion example_lib
          (LLMService_init (llm_api_key example_settings) (llm_api_endpoint example_settings))
          (prompt example_request) (stub_llm ?u) []) = Inr (JString ?u)"
    by (simp add: stub_llm_completion[OF body_null_value])
  show ?thesis
    using filled_data_validation[OF c decode_other_keys]
      filled_data_validation[OF d decode_null_value]
    by (simp add: example_lib_def)
qed

text \<open>
  Claim C5. On a 2xx response, \<open>get_completion\<close> returns the value at
  \<^verbatim>\<open>choices[0].message.content\<close> as it is whenever the body decodes to a value with that
  path, and raises whenever the body is not valid JSON or the path is absent.
\<close>

theorem get_completion_content:
  assumes "client (post_request self p) w = (Responds r, w')"
    and "200 \<le> status_code r" and "status_code r < 300"
  shows "(\<forall>v c. json_loads lib (response_text r) = Inr v \<and> content_path v = Some c
            \<longrightarrow> fst (get_completion lib self p client w) = Inr c)
       \<and> ((\<exists>msg. json_loads lib (response_text r) = Inl msg)
            \<or> (\<exists>v. json_loads lib (response_text r) = Inr v \<and> content_path v = None)
          \<longrightarrow> (\<exists>e. fst (get_completion lib self p client w) = Inl e))"
proof -
  have ok: "raise_for_status lib r = Inr ()"
    using assms(2,3) by (simp add: raise_for_status_def)
  have gc: "fst (get_completion lib self p client w) =
      (case and_then (response_json lib r) extract_content of
         Inl e \<Rightarrow> Inl (on_exception e) | Inr c \<Rightarrow> Inr c)"
    using get_completion_responds[where client=client and self=self and p=p and w=w and r=r and w'=w' and lib=lib] assms(1) ok
    by (simp add: and_then_simps)
  have present: "fst (get_completion lib self p client w) = Inr c"
    if "json_loads lib (response_text r) = Inr v" and "content_path v = Some c" for v c
    using that gc extract_content_path[of v c]
    by (simp add: response_json_def and_then_simps)
  have invalid: "\<exists>e. fst (get_completion lib self p client w) = Inl e"
    if "json_loads lib (response_text r) = Inl msg" for msg
    using that gc by (simp add: response_json_def and_then_simps)
  have absent: "\<exists>e. fst (get_completion lib self p client w) = Inl e"
    if "json_loads lib (response_text r) = Inr v" and "content_path v = None" for v
  proof -
    from extract_content_no_path[OF that(2)] obtain e where "extract_content v = Inl e" ..
    then show ?thesis using that(1) gc by (simp add: response_json_def and_then_simps)
  qed
  show ?thesis using present invalid absent by blast
qed

theorem get_completion_content_witness:
  \<open>fst (get_completion example_lib example_service ''hello'' (stub_llm ''  John Doe  '') []) =
     Inr (JString ''  John Doe  '')
   \<and> (\<exists>e. fst (get_completion example_lib example_service ''hello''
               (recording_client (ok_response ''{"choices": []}'')) []) = Inl e)
   \<and> (\<exists>e. fst (get_completion example_lib example_service ''hello''
               (recording_client (ok_response ''<html>Bad Gateway</html>'')) []) = Inl e)\<close>
proof -
  have post: "recording_client (ok_response body) (post_request example_service ''hello'') [] =
      (Responds \<lparr>status_code = 200, response_text = body\<rparr>,
       [post_request example_service ''hello''])" for body
    by (simp add: recording_client_def ok_response_def)
  have th: "(\<forall>v c. json_loads example_lib body = Inr v \<and> content_path v = Some c
            \<longrightarrow> fst (get_completion example_lib example_service ''hello''
                    (recording_client (ok_response body)) []) = Inr c)
       \<and> ((\<exists>msg. json_loads example_lib body = Inl msg)
            \<or> (\<exists>v. json_loads example_lib body = Inr v \<and> content_path v = None)
          \<longrightarrow> (\<exists>e. fst (get_completion example_lib example_service ''hello''
                    (recording_client (ok_response body)) []) = Inl e))" for body
  proof -
    have a: "200 \<le> status_code \<lparr>status_code = 200, response_text = body\<rparr>"
      and b: "status_code \<lparr>status_code = 200, response_text = body\<rparr> < 300"
      by simp_all
    from get_completion_content[where client = "recording_client (ok_response body)"
        and self = example_service and p = "''hello''" and w = "[]"
        and r = "\<lparr>status_code = 200, response_text = body\<rparr>"
        and w' = "[post_request example_service ''hello'']" and lib = example_lib,
        OF post[of body] a b, simplified]
    show ?thesis by blast
  qed
  have cp: "content_path (JObject [(''choices'', JArray [JObject [(''message'',
       JObject [(''content'', JString ''  John Doe  '')])]])]) = Some (JString ''  John Doe  '')"
    by (simp add: content_path_def)
  have np: "content_path (JObject [(''choices'', JArray [])]) = None"
    by (simp add: content_path_def)
  show ?thesis
    using th[of "completion_body ''  John Doe  ''"] th[of \<open>''{"choices": []}''\<close>]
      th[of "''<html>Bad Gateway</html>''"]
      body_padded cp decode_no_choices np decode_not_json
    by (simp add: stub_llm_def)
qed

text \<open>
  Claim C6. For every API key, endpoint URL and prompt, \<open>get_completion\<close> issues a single
  POST to the configured endpoint: the world after the call is the world after that one
  request, and an upstream that records what it receives has received exactly it. Its
  \<^verbatim>\<open>Authorization\<close> header is \<^verbatim>\<open>Bearer\<close> followed by the key, its JSON body holds the
  fixed model identifier, the prompt, \<^verbatim>\<open>max_tokens\<close> 1500 and \<^verbatim>\<open>temperature\<close> 0.1, and
  its timeout is 30 seconds.
\<close>

theorem get_completion_single_post:
  "snd (get_completion lib (LLMService_init key url) p client w) =
     snd (client
       \<lparr>req_method = POST, req_url = url,
        req_headers = [(''Authorization'', ''Bearer '' @ key), (''Content-Type'', ''application/json'')],
        req_json = JObject [(''model'', JString ''deepseek-coder''), (''prompt'', JString p),
                            (''max_tokens'', JInt 1500), (''temperature'', JFloat (1 / 10))],
        req_timeout = 30\<rparr> w)
   \<and> snd (get_completion lib (LLMService_init key url) p (recording_client r) sent) =
     sent @
       [\<lparr>req_method = POST, req_url = url,
         req_headers = [(''Authorization'', ''Bearer '' @ key), (''Content-Type'', ''application/json'')],
         req_json = JObject [(''model'', JString ''deepseek-coder''), (''prompt'', JString p),
                             (''max_tokens'', JInt 1500), (''temperature'', JFloat (1 / 10))],
         req_timeout = 30\<rparr>]"
  by (simp add: get_completion_world post_request_def LLMService_init_def headers_def
      payload_def recording_client_def)

text \<open>
  Claim C7. The prompt contains every element of the fields on a line of its own after the
  bullet marker \<^verbatim>\<open>- \<close>, and the source content, unchanged, between the line
  \<^verbatim>\<open>--- CONTENT START ---\<close> and the line \<^verbatim>\<open>--- CONTENT END ---\<close>.
\<close>

theorem prompt_lists_fields_and_content:
  "(\<forall>f \<in> set (form_fields request_data).
      sublist (''\<newline>- '' @ f @ ''\<newline>'') (prompt request_data))
   \<and> (\<exists>pre post.
        prompt request_data =
          pre @ ''--- CONTENT START ---\<newline>'' @ source_content request_data @
          ''\<newline>--- CONTENT END ---'' @ post)"
proof (intro conjI ballI)
  fix f
  assume "f \<in> set (form_fields request_data)"
  then have "sublist (''\<newline>- '' @ f @ ''\<newline>'') (''\<newline>'' @ fields_str request_data @ ''\<newline>'')"
    unfolding fields_str_def by (rule bullet_line_in_join)
  then have "sublist (''\<newline>- '' @ f @ ''\<newline>'')
     ((''You are an AI assistant tasked with filling out a form.\<newline>'' @
       ''Below are the fields of the form:\<newline>'' @
       ''--- FIELDS START ---'') @
      (''\<newline>'' @ fields_str request_data @ ''\<newline>'') @
      (''--- FIELDS END ---\<newline>'' @
       ''\<newline>'' @
       ''Here is the source content from which to extract the information:\<newline>'' @
       ''--- CONTENT START ---\<newline>'' @ source_content request_data @ prompt_tail))"
    by (rule sublist_in_context)
  then show "sublist (''\<newline>- '' @ f @ ''\<newline>'') (prompt request_data)"
    by (simp add: prompt_def prompt_head_def prompt_mid_def)
next
  have "prompt request_data =
          (prompt_head @ fields_str request_data @
           ''\<newline>--- FIELDS END ---\<newline>'' @
           ''\<newline>'' @
           ''Here is the source content from which to extract the information:\<newline>'') @
          ''--- CONTENT START ---\<newline>'' @ source_content request_data @
          ''\<newline>--- CONTENT END ---'' @ drop 20 prompt_tail"
    by (simp add: prompt_def prompt_mid_def prompt_tail_def)
  then show "\<exists>pre post.
        prompt request_data =
          pre @ ''--- CONTENT START ---\<newline>'' @ source_content request_data @
          ''\<newline>--- CONTENT END ---'' @ post"
    by blast
qed

theorem prompt_lists_fields_and_content_witness:
  "sublist ''\<newline>- name\<newline>'' (prompt example_request)
   \<and> sublist ''\<newline>- email\<newline>'' (prompt example_request)
   \<and> (\<exists>pre post.
        prompt example_request =
          pre @ ''--- CONTENT START ---\<newline>'' @ ''John Doe, john@example.com'' @
          ''\<newline>--- CONTENT END ---'' @ post)"
  using prompt_lists_fields_and_content[of example_request]
  by (simp add: example_request_simps)

text \<open>
  Claim C8. Against an upstream whose answer does not depend on the state of the world, the
  outcome of the endpoint for a request is the same in every state, so the same request sent
  again after the first gets the same reply; and the two POSTs that an upstream records for
  the two runs are the same request, carrying the same prompt.
\<close>

theorem repeated_request_same_response:
  assumes "\<forall>req w1 w2. fst (client req w1) = fst (client req w2)"
  shows "fst (fill_form_endpoint lib client request_data settings w1) =
           fst (fill_form_endpoint lib client request_data settings w2)
       \<and> fill_form_reply lib client request_data settings
           (snd (fill_form_endpoint lib client request_data settings w)) =
           fill_form_reply lib client request_data settings w
       \<and> snd (fill_form_endpoint lib (recording_client r) request_data settings
           (snd (fill_form_endpoint lib (recording_client r) request_data settings sent))) =
           sent @
           [post_request (LLMService_init (llm_api_key settings) (llm_api_endpoint settings))
              (prompt request_data),
            post_request (LLMService_init (llm_api_key settings) (llm_api_endpoint settings))
              (prompt request_data)]"
proof -
  have same: "fst (fill_form_endpoint lib client request_data settings u) =
              fst (fill_form_endpoint lib client request_data settings v)" for u v
    using assms get_completion_fst_cong[of client _ _ u v lib]
    by (simp add: endpoint_fst)
  show ?thesis
    using same[of w1 w2] same[of "snd (fill_form_endpoint lib client request_data settings w)" w]
    by (simp add: fill_form_reply_def endpoint_snd recording_client_def)
qed

theorem repeated_request_same_response_witness:
  \<open>(\<forall>req w1 w2.
      fst (stub_llm ''{"name": "John Doe", "email": "john@example.com"}'' req w1) =
      fst (stub_llm ''{"name": "John Doe", "email": "john@example.com"}'' req w2))
   \<and> fill_form_reply example_lib
        (stub_llm ''{"name": "John Doe", "email": "john@example.com"}'')
        example_request example_settings
        (snd (fill_form_endpoint example_lib
           (stub_llm ''{"name": "John Doe", "email": "john@example.com"}'')
           example_request example_settings [])) =
     fill_form_reply example_lib
        (stub_llm ''{"name": "John Doe", "email": "john@example.com"}'')
        example_request example_settings []
   \<and> snd (fill_form_endpoint example_lib
        (stub_llm ''{"name": "John Doe", "email": "john@example.com"}'')
        example_request example_settings
        (snd (fill_form_endpoint example_lib
           (stub_llm ''{"name": "John Doe", "email": "john@example.com"}'')
           example_request example_settings []))) =
     [post_request example_service (prompt example_request),
      post_request example_service (prompt example_request)]\<close>
proof -
  let ?c = \<open>stub_llm ''{"name": "John Doe", "email": "john@example.com"}''\<close>
  have det: "\<forall>req w1 w2. fst (?c req w1) = fst (?c req w2)"
    by (simp add: stub_llm_def recording_client_def)
  show ?thesis
    using det repeated_request_same_response[OF det, of example_lib example_request
        example_settings _ _ "[]"
        \<open>ok_response (completion_body ''{"name": "John Doe", "email": "john@example.com"}'')\<close>
        "[]"]
    by (simp add: stub_llm_def example_service_def)
qed

text \<open>
  Claim C9. Two requests with the same fields and the same source content have the same
  prompt, the same outcome of the endpoint and the same reply, whatever their
  \<^verbatim>\<open>prompt_template_id\<close>.
\<close>

theorem prompt_template_id_not_dispatched:
  assumes "form_fields r1 = form_fields r2" and "source_content r1 = source_content r2"
  shows "prompt r1 = prompt r2
       \<and> fill_form_endpoint lib client r1 settings w = fill_form_endpoint lib client r2 settings w
       \<and> fill_form_reply lib client r1 settings w = fill_form_reply lib client r2 settings w"
proof -
  have "prompt r1 = prompt r2"
    using assms by (simp add: prompt_def fields_str_def)
  then show ?thesis by (simp add: fill_form_endpoint_def fill_form_reply_def)
qed

theorem prompt_template_id_not_dispatched_witness:
  \<open>prompt_template_id example_request = Some ''default_v1''
   \<and> prompt_template_id
       (FillFormRequest_init [''name'', ''email''] ''John Doe, john@example.com''
          (Some (Some ''custom_v2''))) = Some ''custom_v2''
   \<and> prompt example_request =
       prompt (FillFormRequest_init [''name'', ''email''] ''John Doe, john@example.com''
          (Some (Some ''custom_v2'')))
   \<and> fill_form_reply example_lib
        (stub_llm ''{"name": "John Doe", "email": "john@example.com"}'')
        example_request example_settings [] =
     fill_form_reply example_lib
        (stub_llm ''{"name": "John Doe", "email": "john@example.com"}'')
        (FillFormRequest_init [''name'', ''email''] ''John Doe, john@example.com''
          (Some (Some ''custom_v2''))) example_settings []\<close>
proof -
  let ?r2 = "FillFormRequest_init [''name'', ''email''] ''John Doe, john@example.com''
          (Some (Some ''custom_v2''))"
  have f: "form_fields example_request = form_fields ?r2"
    and s: "source_content example_request = source_content ?r2"
    by (simp_all add: example_request_def FillFormRequest_init_def)
  show ?thesis
    using prompt_template_id_not_dispatched[OF f s, of example_lib
        \<open>stub_llm ''{"name": "John Doe", "email": "john@example.com"}''\<close>
        example_settings "[]"]
    by (simp add: example_request_def FillFormRequest_init_def)
qed

text \<open>
  Claim C10. Whatever exception \<open>get_completion\<close> ends with, the endpoint turns it into an
  \<^verbatim>\<open>HTTPException\<close> with status 503 and the detail
  \<^verbatim>\<open>LLM service request failed: \<close> followed by the text of the exception; none leaves the
  endpoint uncaught.
\<close>

theorem completion_stage_exception_503:
  assumes "fst (get_completion lib
             (LLMService_init (llm_api_key settings) (llm_api_endpoint settings))
             (prompt request_data) client w) = Inl e"
  shows "fst (fill_form_endpoint lib client request_data settings w) =
           Inl (HTTPException 503 (''LLM service request failed: '' @ exn_str e))
       \<and> fill_form_reply lib client request_data settings w =
           \<lparr>reply_status = 503,
            reply_body = DetailBody (''LLM service request failed: '' @ exn_str e)\<rparr>"
proof -
  obtain w' where "get_completion lib
             (LLMService_init (llm_api_key settings) (llm_api_endpoint settings))
             (prompt request_data) client w = (Inl e, w')"
    using assms by (cases "get_completion lib
             (LLMService_init (llm_api_key settings) (llm_api_endpoint settings))
             (prompt request_data) client w") simp
  then show ?thesis by (simp add: endpoint_failure fill_form_reply_def)
qed

theorem completion_stage_exception_503_witness:
  \<open>fst (get_completion example_lib
          (LLMService_init (llm_api_key example_settings) (llm_api_endpoint example_settings))
          (prompt example_request)
          (recording_client (ok_response ''{"choices": [42]}'')) []) =
     Inl (Exn AttributeError (sq ''int'' @ '' object has no attribute '' @ sq ''get''))
   \<and> fill_form_reply example_lib (recording_client (ok_response ''{"choices": [42]}''))
        example_request example_settings [] =
     \<lparr>reply_status = 503,
      reply_body = DetailBody
        (''LLM service request failed: '' @
         sq ''int'' @ '' object has no attribute '' @ sq ''get'')\<rparr>\<close>
proof -
  have g: \<open>fst (get_completion example_lib
          (LLMService_init (llm_api_key example_settings) (llm_api_endpoint example_settings))
          (prompt example_request)
          (recording_client (ok_response ''{"choices": [42]}'')) []) =
     Inl (Exn AttributeError (sq ''int'' @ '' object has no attribute '' @ sq ''get''))\<close>
    by (simp add: stub_completion_fails[OF decode_choice_number extract_choice_number]
        on_exception_def is_ValueError_def)
  show ?thesis
    using g completion_stage_exception_503[OF g] by simp
qed

end
